theory Spec2Isabelle
  imports Complex_Main
begin

section \<open>JavaScript values\<close>

text \<open>
  A JavaScript \<^verbatim>\<open>number\<close> is an IEEE double. The components below only compare a
  number with zero, test its truthiness and take \<^verbatim>\<open>Math.abs\<close>; all three are exact
  on doubles, so a finite double is modelled by the real it denotes (\<^verbatim>\<open>-0\<close> and
  \<^verbatim>\<open>0\<close> both by \<open>Num 0\<close>: they compare equal, both are falsy and both have absolute
  value zero), and the three special values are constructors of their own.
\<close>

datatype number = Num real | PosInfinity | NegInfinity | NaN

text \<open>\<^verbatim>\<open>a > b\<close> on numbers: false whenever an operand is \<^verbatim>\<open>NaN\<close>.\<close>

fun number_gt :: "number \<Rightarrow> number \<Rightarrow> bool" where
  "number_gt NaN _ = False"
| "number_gt _ NaN = False"
| "number_gt (Num a) (Num b) = (a > b)"
| "number_gt (Num _) PosInfinity = False"
| "number_gt (Num _) NegInfinity = True"
| "number_gt PosInfinity PosInfinity = False"
| "number_gt PosInfinity _ = True"
| "number_gt NegInfinity _ = False"

text \<open>Truthiness of a number: \<^verbatim>\<open>0\<close>, \<^verbatim>\<open>-0\<close> and \<^verbatim>\<open>NaN\<close> are falsy.\<close>

fun number_truthy :: "number \<Rightarrow> bool" where
  "number_truthy (Num a) = (a \<noteq> 0)"
| "number_truthy NaN = False"
| "number_truthy _ = True"

text \<open>\<^verbatim>\<open>Math.abs\<close>.\<close>

fun Math_abs :: "number \<Rightarrow> number" where
  "Math_abs (Num a) = Num \<bar>a\<bar>"
| "Math_abs PosInfinity = PosInfinity"
| "Math_abs NegInfinity = PosInfinity"
| "Math_abs NaN = NaN"

text \<open>
  An optional boolean prop (\<^verbatim>\<open>boolean | undefined\<close>) is a \<open>bool option\<close>, with
  \<open>None\<close> for \<^verbatim>\<open>undefined\<close>. Only \<^verbatim>\<open>true\<close> is truthy, and \<^verbatim>\<open>a || b\<close> is
  \<^verbatim>\<open>a\<close> when \<^verbatim>\<open>a\<close> is truthy and \<^verbatim>\<open>b\<close> otherwise.
\<close>

fun bool_truthy :: "bool option \<Rightarrow> bool" where
  "bool_truthy (Some True) = True"
| "bool_truthy _ = False"

definition js_or :: "bool option \<Rightarrow> bool option \<Rightarrow> bool option" where
  "js_or a b = (if bool_truthy a then a else b)"

text \<open>Truthiness of a string or of a nullable string: empty, null and undefined are falsy.\<close>

fun string_truthy :: "string option \<Rightarrow> bool" where
  "string_truthy None = False"
| "string_truthy (Some s) = (s \<noteq> [])"

section \<open>StatCard (frontend/src/components/common/StatCard.tsx)\<close>

text \<open>
  The part of the MUI theme that \<^verbatim>\<open>TrendBox\<close> reads: four palette entries, taken as a
  parameter (the theme object is built by \<^verbatim>\<open>createTheme\<close>, which derives the light
  shades).
\<close>

record palette =
  success_light :: string
  success_main :: string
  error_light :: string
  error_main :: string

datatype trend = up | down

datatype trend_icon = TrendingUp | TrendingDown

datatype stat_value = StrValue string | NumValue number

text \<open>
  \<^verbatim>\<open>React.ReactNode\<close>, as far as its truthiness and its rendering go: an object
  (an element, a portal or an array, of a type \<open>'e\<close> left open), a string, a number,
  a boolean or \<^verbatim>\<open>null\<close>; \<^verbatim>\<open>undefined\<close> is the \<open>None\<close> of an optional prop. Objects
  are truthy; the empty string, zero, NaN, \<^verbatim>\<open>false\<close>, \<^verbatim>\<open>null\<close> and
  \<^verbatim>\<open>undefined\<close> are falsy.
\<close>

datatype 'e ReactNode =
  Element 'e | TextNode string | NumberNode number | BooleanNode bool | NullNode

fun node_truthy :: "'e ReactNode option \<Rightarrow> bool" where
  "node_truthy None = False"
| "node_truthy (Some (Element _)) = True"
| "node_truthy (Some (TextNode t)) = (t \<noteq> [])"
| "node_truthy (Some (NumberNode n)) = number_truthy n"
| "node_truthy (Some (BooleanNode b)) = b"
| "node_truthy (Some NullNode) = False"

text \<open>The props of \<^verbatim>\<open>StatCardProps\<close>. An optional prop is an \<open>option\<close>.\<close>

record 'e StatCardProps =
  title :: string
  val :: stat_value
  change :: "number option"
  changeLabel :: "string option"
  icon :: "'e ReactNode option"
  color :: "string option"

text \<open>The styles \<^verbatim>\<open>TrendBox\<close> computes from the theme and its \<^verbatim>\<open>trend\<close> prop.\<close>

record trend_style =
  backgroundColor :: string
  fg_color :: string

definition TrendBox_style :: "palette \<Rightarrow> trend \<Rightarrow> trend_style" where
  "TrendBox_style theme t =
     \<lparr> backgroundColor =
         (if t = up then success_light theme @ ''20'' else error_light theme @ ''20''),
       fg_color = (if t = up then success_main theme else error_main theme) \<rparr>"

text \<open>
  What \<^verbatim>\<open>StatCard\<close> renders: the title, the icon slot, the value, and the trend box
  when \<^verbatim>\<open>change !== undefined\<close>. The icon slot is the value of
  \<^verbatim>\<open>icon && (<Box ...>{icon}</Box>)\<close> on line 58: the box, with the colour path it is
  given, when \<^verbatim>\<open>icon\<close> is truthy, and the falsy \<^verbatim>\<open>icon\<close> itself otherwise. The
  trend box holds the icon, the number printed before the percent sign and the
  caption, which is rendered only for a truthy \<^verbatim>\<open>changeLabel\<close>.
\<close>

record trend_box =
  tb_trend :: trend
  tb_style :: trend_style
  tb_icon :: trend_icon
  tb_percent :: number
  tb_caption :: "string option"

datatype 'e icon_slot = IconBox string "'e ReactNode" | Bare "'e ReactNode option"

record 'e stat_card_view =
  v_title :: string
  v_icon_slot :: "'e icon_slot"
  v_value :: stat_value
  v_trend_box :: "trend_box option"

text \<open>
  Line 40: \<^verbatim>\<open>const trend = change && change > 0 ? 'up' : 'down'\<close>. The condition
  \<^verbatim>\<open>change && change > 0\<close> is \<^verbatim>\<open>change\<close> itself when \<^verbatim>\<open>change\<close> is falsy
  (\<^verbatim>\<open>undefined\<close>, zero or NaN, all falsy again) and \<^verbatim>\<open>change > 0\<close> otherwise.
\<close>

definition trend_of :: "number option \<Rightarrow> trend" where
  "trend_of ch =
     (if (case ch of None \<Rightarrow> False
          | Some c \<Rightarrow> if number_truthy c then number_gt c (Num 0) else False)
      then up else down)"

text \<open>Line 41: \<^verbatim>\<open>const TrendIcon = trend === 'up' ? TrendingUp : TrendingDown\<close>.\<close>

definition TrendIcon_of :: "trend \<Rightarrow> trend_icon" where
  "TrendIcon_of t = (if t = up then TrendingUp else TrendingDown)"

definition StatCard :: "palette \<Rightarrow> 'e StatCardProps \<Rightarrow> 'e stat_card_view" where
  "StatCard theme props =
     (let col = (case color props of None \<Rightarrow> ''primary'' | Some c \<Rightarrow> c);
          t = trend_of (change props);
          TrendIcon = TrendIcon_of t
      in \<lparr> v_title = title props,
           v_icon_slot =
             (case icon props of
                Some i \<Rightarrow> if node_truthy (Some i) then IconBox (col @ ''.main'') i
                          else Bare (Some i)
              | None \<Rightarrow> Bare None),
           v_value = val props,
           v_trend_box =
             (case change props of
                None \<Rightarrow> None
              | Some c \<Rightarrow>
                  Some \<lparr> tb_trend = t,
                         tb_style = TrendBox_style theme t,
                         tb_icon = TrendIcon,
                         tb_percent = Math_abs c,
                         tb_caption =
                           (if string_truthy (changeLabel props) then changeLabel props
                            else None) \<rparr>) \<rparr>)"

section \<open>Button (src/unnamed/part_002, imported elsewhere as components/common/Button)\<close>

text \<open>
  \<^verbatim>\<open>ButtonProps\<close>: the two props the component adds, the two props of MUI's button it
  destructures (\<^verbatim>\<open>children\<close>, \<^verbatim>\<open>disabled\<close>), and the remaining MUI props
  (\<^verbatim>\<open>...props\<close>), which it hands on untouched. Since \<^verbatim>\<open>disabled\<close> is destructured,
  the rest holds no \<^verbatim>\<open>disabled\<close> entry and the later spread cannot override the
  attribute computed on line 35.
\<close>

record ('node, 'rest) ButtonProps =
  children :: 'node
  loading :: "bool option"
  disabled :: "bool option"
  gradient :: "bool option"
  rest_props :: 'rest

text \<open>
  The children of the rendered \<^verbatim>\<open>StyledButton\<close>: either the spinner
  \<^verbatim>\<open><CircularProgress size={20} color="inherit" />\<close> or the caller's children.
\<close>

datatype 'node button_content = CircularProgress nat string | Children 'node

record ('node, 'rest) styled_button =
  sb_disabled :: "bool option"
  sb_gradient :: bool
  sb_rest :: 'rest
  sb_content :: "'node button_content"

text \<open>
  Lines 26 to 46. The default \<^verbatim>\<open>gradient = false\<close> applies when the prop is
  \<^verbatim>\<open>undefined\<close>; \<^verbatim>\<open>loading ? a : b\<close> tests the truthiness of \<^verbatim>\<open>loading\<close>.
\<close>

definition Button :: "('node, 'rest) ButtonProps \<Rightarrow> ('node, 'rest) styled_button" where
  "Button props =
     \<lparr> sb_disabled = js_or (disabled props) (loading props),
       sb_gradient = (case gradient props of None \<Rightarrow> False | Some g \<Rightarrow> g),
       sb_rest = rest_props props,
       sb_content =
         (if bool_truthy (loading props) then CircularProgress 20 ''inherit''
          else Children (children props)) \<rparr>"

text \<open>
  MUI's button defaults \<^verbatim>\<open>disabled\<close> to \<^verbatim>\<open>false\<close>, so the underlying DOM button is
  disabled exactly when the attribute it receives is \<^verbatim>\<open>true\<close>.
\<close>

definition button_is_disabled :: "('node, 'rest) styled_button \<Rightarrow> bool" where
  "button_is_disabled b = bool_truthy (sb_disabled b)"

section \<open>AuthProvider (frontend/src/contexts/AuthContext.tsx)\<close>

text \<open>
  The provider's two state cells. \<^verbatim>\<open>useState<User | null>(null)\<close> and
  \<^verbatim>\<open>useState(true)\<close> give the state at mount.
\<close>

record 'user auth_state =
  user :: "'user option"
  isLoading :: bool

text \<open>
  Everything outside the component that \<^verbatim>\<open>checkAuth\<close> reads or writes: the world
  behind \<^verbatim>\<open>storageService\<close> and \<^verbatim>\<open>authService\<close> (token storage, backend), of a
  type \<open>'w\<close> left open since neither service is among the sources, and the
  console, as the list of errors logged.
\<close>

record ('user, 'w, 'err) app =
  auth :: "'user auth_state"
  world :: 'w
  console :: "'err list"

definition mount :: "'w \<Rightarrow> ('user, 'w, 'err) app" where
  "mount w = \<lparr> auth = \<lparr> user = None, isLoading = True \<rparr>, world = w, console = [] \<rparr>"

text \<open>
  What awaiting the promise of \<^verbatim>\<open>authService.getCurrentUser()\<close> can come to: the
  promise never settles, it is rejected (or the call throws), or it is fulfilled
  with the user.
\<close>

datatype ('err, 'user) settled = Pending | Rejected 'err | Fulfilled 'user

text \<open>
  How a run of \<^verbatim>\<open>checkAuth\<close> ends: it returns, an exception escapes it (its promise
  is rejected; nothing handles it), or it stays suspended at the \<^verbatim>\<open>await\<close>.
\<close>

datatype 'err completion = Returned | Threw 'err | Suspended

text \<open>Line 34, \<^verbatim>\<open>setIsLoading(false)\<close>, after which the function returns.\<close>

definition setIsLoading_false ::
  "('user, 'w, 'err) app \<Rightarrow> 'err completion \<times> ('user, 'w, 'err) app" where
  "setIsLoading_false a = (Returned, a \<lparr> auth := (auth a) \<lparr> isLoading := False \<rparr> \<rparr>)"

text \<open>
  Lines 21 to 38, the effect's \<^verbatim>\<open>checkAuth\<close>. The three service calls are
  parameters; each may change the world, and each may fail:
  \<^item> \<^verbatim>\<open>storageService.getAccessToken()\<close> (line 24) returns the token (\<open>Inr\<close>) or
    throws (\<open>Inl\<close>). It stands outside the \<^verbatim>\<open>try\<close>, so its exception escapes.
  \<^item> \<^verbatim>\<open>await authService.getCurrentUser()\<close> (line 27), inside the \<^verbatim>\<open>try\<close>: when
    fulfilled, \<^verbatim>\<open>setUser\<close> runs; when rejected, the \<^verbatim>\<open>catch\<close> block runs; while
    pending, nothing after it runs.
  \<^item> \<^verbatim>\<open>storageService.clearTokens()\<close> (line 31) returns (\<open>None\<close>) or throws
    (\<open>Some\<close>). It stands inside the \<^verbatim>\<open>catch\<close> block and there is no
    \<^verbatim>\<open>finally\<close>, so its exception escapes as well.
  Line 34 is reached only when nothing has escaped and the \<^verbatim>\<open>await\<close> has come back.
\<close>

definition checkAuth ::
  "('w \<Rightarrow> ('err + string option) \<times> 'w) \<Rightarrow> ('w \<Rightarrow> ('err, 'user) settled \<times> 'w) \<Rightarrow>
   ('w \<Rightarrow> 'err option \<times> 'w) \<Rightarrow>
   ('user, 'w, 'err) app \<Rightarrow> 'err completion \<times> ('user, 'w, 'err) app" where
  "checkAuth getAccessToken getCurrentUser clearTokens a =
     (case getAccessToken (world a) of
        (Inl thrown, w1) \<Rightarrow> (Threw thrown, a \<lparr> world := w1 \<rparr>)
      | (Inr token, w1) \<Rightarrow>
          if string_truthy token then
            (case getCurrentUser w1 of
               (Pending, w2) \<Rightarrow> (Suspended, a \<lparr> world := w2 \<rparr>)
             | (Fulfilled userData, w2) \<Rightarrow>
                 setIsLoading_false
                   (a \<lparr> world := w2, auth := (auth a) \<lparr> user := Some userData \<rparr> \<rparr>)
             | (Rejected error, w2) \<Rightarrow>
                 (case clearTokens w2 of
                    (Some thrown, w3) \<Rightarrow>
                      (Threw thrown, a \<lparr> world := w3, console := console a @ [error] \<rparr>)
                  | (None, w3) \<Rightarrow>
                      setIsLoading_false
                        (a \<lparr> world := w3, console := console a @ [error] \<rparr>)))
          else setIsLoading_false (a \<lparr> world := w1 \<rparr>))"

section \<open>The conversation orchestrator: session states and barge-in\<close>

text \<open>
  The sources hold the dashboard frontend only; \<^verbatim>\<open>CallSession\<close> and its
  collaborators are described by the specification (sections 3 and 4) and by no
  source file. The definitions of this section are therefore written from the
  specification's words, each marked as such.
\<close>

text \<open>
  Modelled from the spec: the type \<^verbatim>\<open>SessionState\<close> of \<^verbatim>\<open>CallSession\<close> (section
  4.3: "States: Connecting, Listening, Thinking, Speaking, Ended, plus a transient
  Interrupting state"); the \<^verbatim>\<open>CallSession\<close> code is missing from the sources.
\<close>

datatype SessionState = Connecting | Listening | Thinking | Speaking | Interrupting | Ended

text \<open>
  Modelled from the spec: the transition graph of section 4.3 (the \<^verbatim>\<open>CallSession\<close>
  state machine is missing from the sources), as the states that may follow a
  state. The bullets of 4.3 give: Connecting to Listening; Listening to Thinking;
  Thinking to Speaking; Speaking to Interrupting and Interrupting to Listening;
  Speaking to Listening; any state to Ended; and "Ended is terminal; no further
  transitions occur", so \<open>Ended\<close> has no successor, itself included.
\<close>

fun successors :: "SessionState \<Rightarrow> SessionState list" where
  "successors Connecting = [Listening, Ended]"
| "successors Listening = [Thinking, Ended]"
| "successors Thinking = [Speaking, Ended]"
| "successors Speaking = [Interrupting, Listening, Ended]"
| "successors Interrupting = [Listening, Ended]"
| "successors Ended = []"

definition valid_transition :: "SessionState \<Rightarrow> SessionState \<Rightarrow> bool" where
  "valid_transition s t = (t \<in> set (successors s))"

text \<open>
  Modelled from the spec: a sequence of valid transitions (section 8, first
  property), as the list of states a session passes through after the state \<open>s\<close>:
  each step is an edge of the graph.
\<close>

fun valid_transitions :: "SessionState \<Rightarrow> SessionState list \<Rightarrow> bool" where
  "valid_transitions s [] = True"
| "valid_transitions s (t # ts) = (valid_transition s t \<and> valid_transitions t ts)"

text \<open>
  Modelled from the spec: the data model of section 3, as far as the barge-in
  transition reads or writes it (the \<^verbatim>\<open>CallSession\<close>, \<^verbatim>\<open>Turn\<close>, \<^verbatim>\<open>AgentConfig\<close> and
  \<^verbatim>\<open>AudioFrameBus\<close> code is missing from the sources). \<^verbatim>\<open>AgentConfig\<close> carries the
  interruption policy ("barge-in enabled/disabled, minimum speech-duration
  threshold"); a \<^verbatim>\<open>Turn\<close> has the fields of section 3 and the truncation mark that
  section 4.3 sets; the bus holds the outbound chunks enqueued and not yet sent, and
  those already written to the telephony leg; every transition pushes an event with
  "the prior state, new state, and timestamp".
\<close>

record InterruptionPolicy =
  bargeInEnabled :: bool
  minDurationMs :: nat

record AgentConfig =
  promptTemplate :: string
  targetLanguage :: string
  selectedVoice :: string
  interruptionPolicy :: InterruptionPolicy
  responseTimeoutMs :: nat

datatype Speaker = caller | agent

record Turn =
  speaker :: Speaker
  turn_text :: string
  startedAt :: nat
  endedAt :: nat
  audioSegment :: "nat option"
  truncated :: bool

record 'chunk AudioFrameBus =
  outbound :: "'chunk list"
  written :: "'chunk list"
  flushes :: nat

record StateChanged =
  prior :: SessionState
  new_state :: SessionState
  timestamp :: nat

record 'chunk CallSession =
  callId :: string
  orgId :: string
  state :: SessionState
  turns :: "Turn list"
  config :: AgentConfig
  bus :: "'chunk AudioFrameBus"
  events :: "StateChanged list"

text \<open>
  Modelled from the spec: the one way a session changes state (section 3: "session
  state transitions follow the graph in 4.3 exactly"; section 4.3: "Side effects on
  every transition: an event is pushed to EventBus carrying the prior state, new
  state, and timestamp"). A step that is not an edge of the graph is not taken.
\<close>

definition transition_to :: "nat \<Rightarrow> SessionState \<Rightarrow> 'chunk CallSession \<Rightarrow> 'chunk CallSession" where
  "transition_to now t s =
     (if valid_transition (state s) t
      then s \<lparr> state := t,
               events := events s @ [\<lparr> prior = state s, new_state = t, timestamp = now \<rparr>] \<rparr>
      else s)"

text \<open>
  Modelled from the spec: the flush-and-discard of \<^verbatim>\<open>AudioFrameBus\<close> (section 4.1:
  "no already-enqueued-but-not-yet-sent audio reaches the line afterward"): the
  pending outbound chunks are dropped, what was written stays written.
\<close>

definition flush_and_discard :: "'chunk AudioFrameBus \<Rightarrow> 'chunk AudioFrameBus" where
  "flush_and_discard b = b \<lparr> outbound := [], flushes := Suc (flushes b) \<rparr>"

text \<open>
  Modelled from the spec: "marks the in-progress agent Turn as truncated" (section
  4.3). The in-progress turn is the last of the history, appended on entering
  Speaking; it is marked when it is the agent's.
\<close>

fun mark_truncated :: "Turn list \<Rightarrow> Turn list" where
  "mark_truncated [] = []"
| "mark_truncated [t] = (if speaker t = agent then [t \<lparr> truncated := True \<rparr>] else [t])"
| "mark_truncated (t # ts) = t # mark_truncated ts"

text \<open>
  Modelled from the spec: the session's reaction to the voice-activity detector's
  report of \<open>durationMs\<close> of sustained caller speech (section 4.3, the bullet
  "Speaking to Interrupting to Listening": "triggered when VoiceActivityDetector
  reports sustained caller speech (duration at least minDurationMs) while in
  Speaking, AND the policy allows barge-in. Interrupting issues the
  flush-and-discard to AudioFrameBus, marks the in-progress agent Turn as truncated,
  and transitions to Listening"). Otherwise the report changes nothing.
\<close>

definition on_sustained_speech :: "nat \<Rightarrow> nat \<Rightarrow> 'chunk CallSession \<Rightarrow> 'chunk CallSession" where
  "on_sustained_speech now durationMs s =
     (if state s = Speaking
         \<and> minDurationMs (interruptionPolicy (config s)) \<le> durationMs
         \<and> bargeInEnabled (interruptionPolicy (config s))
      then
        (let s1 = transition_to now Interrupting s;
             s2 = s1 \<lparr> bus := flush_and_discard (bus s1), turns := mark_truncated (turns s1) \<rparr>
         in transition_to now Listening s2)
      else s)"

section \<open>Properties of StatCard\<close>

lemma trend_of_Some:
  "trend_of (Some c) =
     (case c of Num r \<Rightarrow> if 0 < r then up else down
      | PosInfinity \<Rightarrow> up | NegInfinity \<Rightarrow> down | NaN \<Rightarrow> down)"
  by (cases c) (auto simp: trend_of_def)

text \<open>
  Claim C8. For a \<^verbatim>\<open>StatCard\<close> whose \<^verbatim>\<open>change\<close> prop is defined, the trend box is
  rendered. For a finite \<^verbatim>\<open>change\<close> \<open>r\<close> the number displayed is \<open>\<bar>r\<bar>\<close> and the
  trend is upward exactly when \<open>0 < r\<close>, so zero and every negative change give the
  downward trend; \<^verbatim>\<open>NaN\<close> and \<^verbatim>\<open>-Infinity\<close> give the downward trend too (displayed
  as \<^verbatim>\<open>NaN\<close> and \<^verbatim>\<open>Infinity\<close>), and \<^verbatim>\<open>Infinity\<close> the upward one. The downward
  trend is the \<^verbatim>\<open>TrendingDown\<close> icon in the theme's error colour, the upward one
  the \<^verbatim>\<open>TrendingUp\<close> icon in its success colour.
\<close>

theorem StatCard_trend_down_unless_positive:
  assumes "change props = Some c"
  shows "\<exists>box. v_trend_box (StatCard theme props) = Some box
           \<and> (case c of
                Num r \<Rightarrow> tb_percent box = Num \<bar>r\<bar> \<and> (tb_trend box = up) = (0 < r)
                          \<and> (r \<le> 0 \<longrightarrow> tb_trend box = down)
              | PosInfinity \<Rightarrow> tb_percent box = PosInfinity \<and> tb_trend box = up
              | NegInfinity \<Rightarrow> tb_percent box = PosInfinity \<and> tb_trend box = down
              | NaN \<Rightarrow> tb_percent box = NaN \<and> tb_trend box = down)
           \<and> (tb_trend box = down \<longrightarrow>
                 tb_icon box = TrendingDown
                 \<and> fg_color (tb_style box) = error_main theme
                 \<and> backgroundColor (tb_style box) = error_light theme @ ''20'')
           \<and> (tb_trend box = up \<longrightarrow>
                 tb_icon box = TrendingUp
                 \<and> fg_color (tb_style box) = success_main theme
                 \<and> backgroundColor (tb_style box) = success_light theme @ ''20'')"
  using assms
  by (cases c)
     (simp_all add: StatCard_def Let_def trend_of_Some TrendIcon_of_def TrendBox_style_def)

theorem StatCard_trend_down_unless_positive_witness:
  "(\<exists>box. v_trend_box (StatCard
        \<lparr> success_light = ''#4caf50'', success_main = ''#107C10'',
          error_light = ''#ef5350'', error_main = ''#D13438'' \<rparr>
        \<lparr> title = ''Avg. duration'', val = StrValue ''3:24'', change = Some (Num (- 5)),
          changeLabel = Some ''vs last week'', icon = (None :: unit ReactNode option),
          color = None \<rparr>) = Some box
     \<and> tb_percent box = Num 5 \<and> tb_trend box = down \<and> tb_icon box = TrendingDown
     \<and> fg_color (tb_style box) = ''#D13438'')
   \<and> (\<exists>box. v_trend_box (StatCard
        \<lparr> success_light = ''#4caf50'', success_main = ''#107C10'',
          error_light = ''#ef5350'', error_main = ''#D13438'' \<rparr>
        \<lparr> title = ''Calls'', val = NumValue (Num 12), change = Some (Num 0),
          changeLabel = None, icon = (None :: unit ReactNode option),
          color = None \<rparr>) = Some box
     \<and> tb_percent box = Num 0 \<and> tb_trend box = down \<and> tb_icon box = TrendingDown
     \<and> fg_color (tb_style box) = ''#D13438'')
   \<and> (\<exists>box. v_trend_box (StatCard
        \<lparr> success_light = ''#4caf50'', success_main = ''#107C10'',
          error_light = ''#ef5350'', error_main = ''#D13438'' \<rparr>
        \<lparr> title = ''Calls'', val = NumValue (Num 12), change = Some (Num 12),
          changeLabel = None, icon = (None :: unit ReactNode option),
          color = None \<rparr>) = Some box
     \<and> tb_percent box = Num 12 \<and> tb_trend box = up \<and> tb_icon box = TrendingUp
     \<and> fg_color (tb_style box) = ''#107C10'')"
  using
    StatCard_trend_down_unless_positive
      [of "\<lparr> title = ''Avg. duration'', val = StrValue ''3:24'', change = Some (Num (- 5)),
          changeLabel = Some ''vs last week'', icon = (None :: unit ReactNode option),
          color = None \<rparr>" "Num (- 5)"
        "\<lparr> success_light = ''#4caf50'', success_main = ''#107C10'',
          error_light = ''#ef5350'', error_main = ''#D13438'' \<rparr>"]
    StatCard_trend_down_unless_positive
      [of "\<lparr> title = ''Calls'', val = NumValue (Num 12), change = Some (Num 0),
          changeLabel = None, icon = (None :: unit ReactNode option),
          color = None \<rparr>" "Num 0"
        "\<lparr> success_light = ''#4caf50'', success_main = ''#107C10'',
          error_light = ''#ef5350'', error_main = ''#D13438'' \<rparr>"]
    StatCard_trend_down_unless_positive
      [of "\<lparr> title = ''Calls'', val = NumValue (Num 12), change = Some (Num 12),
          changeLabel = None, icon = (None :: unit ReactNode option),
          color = None \<rparr>" "Num 12"
        "\<lparr> success_light = ''#4caf50'', success_main = ''#107C10'',
          error_light = ''#ef5350'', error_main = ''#D13438'' \<rparr>"]
  by auto

section \<open>Properties of Button\<close>

lemma js_or_truthy: "bool_truthy (js_or a b) = (bool_truthy a \<or> bool_truthy b)"
  by (simp add: js_or_def)

text \<open>
  Claim C10. With \<^verbatim>\<open>loading\<close> set to \<^verbatim>\<open>true\<close> the underlying button is disabled
  whatever the \<^verbatim>\<open>disabled\<close> prop is, and the spinner is rendered in place of the
  children. With \<^verbatim>\<open>loading\<close> false or unset, the button is disabled exactly when
  the \<^verbatim>\<open>disabled\<close> prop is true, and the children are rendered.
\<close>

theorem Button_loading_disables_and_shows_spinner:
  "(loading props = Some True \<longrightarrow>
      button_is_disabled (Button props)
      \<and> sb_content (Button props) = CircularProgress 20 ''inherit'')
   \<and> (loading props \<noteq> Some True \<longrightarrow>
      button_is_disabled (Button props) = (disabled props = Some True)
      \<and> sb_content (Button props) = Children (children props))"
proof -
  have t: "bool_truthy x = (x = Some True)" for x
    by (cases x rule: bool_truthy.cases) simp_all
  have d: "button_is_disabled (Button props)
             = (disabled props = Some True \<or> loading props = Some True)"
    unfolding button_is_disabled_def Button_def
    by (simp add: js_or_truthy) (simp add: t)
  have c: "sb_content (Button props)
             = (if loading props = Some True then CircularProgress 20 ''inherit''
                else Children (children props))"
    by (simp add: Button_def t)
  show ?thesis
    unfolding d c by simp
qed

theorem Button_loading_disables_and_shows_spinner_witness:
  "button_is_disabled
     (Button \<lparr> children = ''Anmelden'', loading = Some True, disabled = Some False,
               gradient = Some True, rest_props = () \<rparr>)
   \<and> sb_content
     (Button \<lparr> children = ''Anmelden'', loading = Some True, disabled = Some False,
               gradient = Some True, rest_props = () \<rparr>) = CircularProgress 20 ''inherit''
   \<and> \<not> button_is_disabled
     (Button \<lparr> children = ''Anmelden'', loading = None, disabled = Some False,
               gradient = Some True, rest_props = () \<rparr>)
   \<and> sb_content
     (Button \<lparr> children = ''Anmelden'', loading = None, disabled = Some False,
               gradient = Some True, rest_props = () \<rparr>) = Children ''Anmelden''"
  using Button_loading_disables_and_shows_spinner
      [of "\<lparr> children = ''Anmelden'', loading = Some True, disabled = Some False,
               gradient = Some True, rest_props = () \<rparr>"]
    Button_loading_disables_and_shows_spinner
      [of "\<lparr> children = ''Anmelden'', loading = None, disabled = Some False,
               gradient = Some True, rest_props = () \<rparr>"]
  by simp

section \<open>Properties of AuthProvider\<close>

lemma checkAuth_isLoading_iff_Returned:
  "isLoading (auth (snd (checkAuth g c k (mount w)))) =
     (fst (checkAuth g c k (mount w)) \<noteq> Returned)"
  by (auto simp: checkAuth_def mount_def setIsLoading_false_def
           split: prod.splits sum.splits settled.splits option.splits)




section \<open>Properties of the session state machine\<close>

lemma no_transition_from_Ended: "valid_transitions Ended ts \<Longrightarrow> ts = []"
  by (cases ts) (simp_all add: valid_transition_def)

lemma valid_transitions_suffix:
  "valid_transitions s (pre @ t # post) \<Longrightarrow> valid_transitions t post"
  by (induction pre arbitrary: s) auto

lemma into_Interrupting: "valid_transition s Interrupting = (s = Speaking)"
  by (cases s) (simp_all add: valid_transition_def)

text \<open>
  Claim C1. Along every sequence of valid transitions, from whatever state it
  starts, each state passed through is one of Connecting, Listening, Thinking,
  Speaking, Interrupting and Ended; nothing follows Ended in the sequence, and from
  Ended the only sequence is the empty one. Interrupting is entered from Speaking
  only.
\<close>

theorem Ended_is_terminal:
  assumes "valid_transitions s ts"
  shows "set (s # ts) \<subseteq> {Connecting, Listening, Thinking, Speaking, Interrupting, Ended}
    \<and> (\<forall>pre post. ts = pre @ Ended # post \<longrightarrow> post = [])
    \<and> (s = Ended \<longrightarrow> ts = [])
    \<and> (\<forall>pre post. s # ts = pre @ Interrupting # post \<and> pre \<noteq> [] \<longrightarrow> last pre = Speaking)"
proof -
  have six: "x \<in> {Connecting, Listening, Thinking, Speaking, Interrupting, Ended}"
    for x :: SessionState
    by (cases x) simp_all
  have states: "set (s # ts) \<subseteq> {Connecting, Listening, Thinking, Speaking, Interrupting, Ended}"
    using six by blast
  have after: "post = []" if "ts = pre @ Ended # post" for pre post
    using assms that valid_transitions_suffix [of s pre Ended post]
      no_transition_from_Ended [of post] by simp
  have from_Ended: "ts = []" if "s = Ended"
    using assms that no_transition_from_Ended by simp
  have before: "last pre = Speaking"
    if eq: "s # ts = pre @ Interrupting # post" and ne: "pre \<noteq> []" for pre post
  proof -
    obtain pre' p where pre: "pre = pre' @ [p]"
      using ne by (metis append_butlast_last_id)
    have "valid_transitions p (Interrupting # post)"
    proof (cases pre')
      case Nil
      with eq pre assms show ?thesis by simp
    next
      case (Cons a as)
      with eq pre have "ts = as @ p # Interrupting # post" and "s = a" by simp_all
      with assms show ?thesis
        using valid_transitions_suffix [of s as p "Interrupting # post"] by simp
    qed
    then have "p = Speaking" by (simp add: into_Interrupting)
    with pre show ?thesis by simp
  qed
  show ?thesis using states after from_Ended before by blast
qed

theorem Ended_is_terminal_witness:
  "valid_transitions Connecting [Listening, Thinking, Speaking, Interrupting, Listening, Ended]
   \<and> set [Connecting, Listening, Thinking, Speaking, Interrupting, Listening, Ended]
       \<subseteq> {Connecting, Listening, Thinking, Speaking, Interrupting, Ended}
   \<and> \<not> valid_transitions Connecting [Listening, Ended, Listening]
   \<and> \<not> valid_transitions Ended [Ended]"
proof -
  have ok: "valid_transitions Connecting
              [Listening, Thinking, Speaking, Interrupting, Listening, Ended]"
    by (simp add: valid_transition_def)
  have bad: "\<not> valid_transitions Connecting [Listening, Ended, Listening]"
    using Ended_is_terminal [of Connecting "[Listening, Ended, Listening]"]
    by (metis append_Cons append_Nil list.distinct(1))
  have bad2: "\<not> valid_transitions Ended [Ended]"
    using Ended_is_terminal [of Ended "[Ended]"] by blast
  show ?thesis
    using ok bad bad2 Ended_is_terminal [OF ok] by simp
qed

section \<open>Properties of barge-in\<close>

lemma mark_truncated_snoc:
  "mark_truncated (ts @ [t]) = ts @ [if speaker t = agent then t \<lparr> truncated := True \<rparr> else t]"
  by (induction ts rule: mark_truncated.induct) simp_all

lemma interruption_steps:
  "valid_transition Speaking Interrupting" "valid_transition Interrupting Listening"
  by (simp_all add: valid_transition_def)

lemma on_sustained_speech_allowed:
  assumes "state s = Speaking"
    and "minDurationMs (interruptionPolicy (config s)) \<le> durationMs"
    and "bargeInEnabled (interruptionPolicy (config s))"
  shows "on_sustained_speech now durationMs s =
           s \<lparr> state := Listening,
               events := events s @
                 [\<lparr> prior = Speaking, new_state = Interrupting, timestamp = now \<rparr>,
                  \<lparr> prior = Interrupting, new_state = Listening, timestamp = now \<rparr>],
               bus := flush_and_discard (bus s),
               turns := mark_truncated (turns s) \<rparr>"
  using assms
  by (simp add: on_sustained_speech_def transition_to_def interruption_steps Let_def)

text \<open>
  Claim C4. In Speaking, with sustained caller speech of at least
  \<^verbatim>\<open>minDurationMs\<close>: when the policy allows barge-in the session passes through
  Interrupting to Listening (two transitions, in this order), the bus is flushed
  (nothing stays enqueued, what was written is unchanged) and the in-progress agent
  turn is marked truncated; when barge-in is disabled the session is unchanged. So
  the transition happens if and only if the policy allows it.
\<close>

theorem barge_in_iff_policy_allows:
  assumes "state s = Speaking"
    and "minDurationMs (interruptionPolicy (config s)) \<le> durationMs"
    and "s' = on_sustained_speech now durationMs s"
  shows "(bargeInEnabled (interruptionPolicy (config s)) \<longrightarrow>
            state s' = Listening
          \<and> events s' = events s @
               [\<lparr> prior = Speaking, new_state = Interrupting, timestamp = now \<rparr>,
                \<lparr> prior = Interrupting, new_state = Listening, timestamp = now \<rparr>]
          \<and> outbound (bus s') = [] \<and> written (bus s') = written (bus s)
          \<and> flushes (bus s') = Suc (flushes (bus s))
          \<and> (\<forall>ts t. turns s = ts @ [t] \<and> speaker t = agent \<longrightarrow>
                turns s' = ts @ [t \<lparr> truncated := True \<rparr>]))
       \<and> (\<not> bargeInEnabled (interruptionPolicy (config s)) \<longrightarrow> s' = s)
       \<and> ((state s' \<noteq> state s) = bargeInEnabled (interruptionPolicy (config s)))
       \<and> ((events s' \<noteq> events s) = bargeInEnabled (interruptionPolicy (config s)))"
proof (cases "bargeInEnabled (interruptionPolicy (config s))")
  case True
  have eq: "s' = s \<lparr> state := Listening,
               events := events s @
                 [\<lparr> prior = Speaking, new_state = Interrupting, timestamp = now \<rparr>,
                  \<lparr> prior = Interrupting, new_state = Listening, timestamp = now \<rparr>],
               bus := flush_and_discard (bus s),
               turns := mark_truncated (turns s) \<rparr>"
    using assms True by (simp add: on_sustained_speech_allowed)
  show ?thesis
    using True assms(1)
    by (simp add: eq flush_and_discard_def mark_truncated_snoc)
next
  case False
  then have "s' = s"
    using assms by (simp add: on_sustained_speech_def)
  with False show ?thesis by simp
qed

theorem barge_in_iff_policy_allows_witness:
  "state (on_sustained_speech 5000 400
      \<lparr> callId = ''call-1'', orgId = ''org-1'', state = Speaking,
        turns = [\<lparr> speaker = caller, turn_text = ''Hello'', startedAt = 0, endedAt = 900,
                   audioSegment = None, truncated = False \<rparr>,
                 \<lparr> speaker = agent, turn_text = ''Sure, what day works?'', startedAt = 1200,
                   endedAt = 1200, audioSegment = None, truncated = False \<rparr>],
        config = \<lparr> promptTemplate = ''You are a receptionist.'', targetLanguage = ''de'',
                   selectedVoice = ''v1'',
                   interruptionPolicy = \<lparr> bargeInEnabled = True, minDurationMs = 300 \<rparr>,
                   responseTimeoutMs = 8000 \<rparr>,
        bus = \<lparr> outbound = [''c3'', ''c4''], written = [''c1'', ''c2''], flushes = 0 \<rparr>,
        events = [] \<rparr>) = Listening
   \<and> outbound (bus (on_sustained_speech 5000 400
      \<lparr> callId = ''call-1'', orgId = ''org-1'', state = Speaking,
        turns = [\<lparr> speaker = caller, turn_text = ''Hello'', startedAt = 0, endedAt = 900,
                   audioSegment = None, truncated = False \<rparr>,
                 \<lparr> speaker = agent, turn_text = ''Sure, what day works?'', startedAt = 1200,
                   endedAt = 1200, audioSegment = None, truncated = False \<rparr>],
        config = \<lparr> promptTemplate = ''You are a receptionist.'', targetLanguage = ''de'',
                   selectedVoice = ''v1'',
                   interruptionPolicy = \<lparr> bargeInEnabled = True, minDurationMs = 300 \<rparr>,
                   responseTimeoutMs = 8000 \<rparr>,
        bus = \<lparr> outbound = [''c3'', ''c4''], written = [''c1'', ''c2''], flushes = 0 \<rparr>,
        events = [] \<rparr>)) = []
   \<and> state (on_sustained_speech 5000 400
      \<lparr> callId = ''call-1'', orgId = ''org-1'', state = Speaking,
        turns = [\<lparr> speaker = caller, turn_text = ''Hello'', startedAt = 0, endedAt = 900,
                   audioSegment = None, truncated = False \<rparr>,
                 \<lparr> speaker = agent, turn_text = ''Sure, what day works?'', startedAt = 1200,
                   endedAt = 1200, audioSegment = None, truncated = False \<rparr>],
        config = \<lparr> promptTemplate = ''You are a receptionist.'', targetLanguage = ''de'',
                   selectedVoice = ''v1'',
                   interruptionPolicy = \<lparr> bargeInEnabled = False, minDurationMs = 300 \<rparr>,
                   responseTimeoutMs = 8000 \<rparr>,
        bus = \<lparr> outbound = [''c3'', ''c4''], written = [''c1'', ''c2''], flushes = 0 \<rparr>,
        events = [] \<rparr>) = Speaking"
  using
    barge_in_iff_policy_allows [OF _ _ refl, of
      "\<lparr> callId = ''call-1'', orgId = ''org-1'', state = Speaking,
        turns = [\<lparr> speaker = caller, turn_text = ''Hello'', startedAt = 0, endedAt = 900,
                   audioSegment = None, truncated = False \<rparr>,
                 \<lparr> speaker = agent, turn_text = ''Sure, what day works?'', startedAt = 1200,
                   endedAt = 1200, audioSegment = None, truncated = False \<rparr>],
        config = \<lparr> promptTemplate = ''You are a receptionist.'', targetLanguage = ''de'',
                   selectedVoice = ''v1'',
                   interruptionPolicy = \<lparr> bargeInEnabled = True, minDurationMs = 300 \<rparr>,
                   responseTimeoutMs = 8000 \<rparr>,
        bus = \<lparr> outbound = [''c3'', ''c4''], written = [''c1'', ''c2''], flushes = 0 \<rparr>,
        events = [] \<rparr>" 400 5000]
    barge_in_iff_policy_allows [OF _ _ refl, of
      "\<lparr> callId = ''call-1'', orgId = ''org-1'', state = Speaking,
        turns = [\<lparr> speaker = caller, turn_text = ''Hello'', startedAt = 0, endedAt = 900,
                   audioSegment = None, truncated = False \<rparr>,
                 \<lparr> speaker = agent, turn_text = ''Sure, what day works?'', startedAt = 1200,
                   endedAt = 1200, audioSegment = None, truncated = False \<rparr>],
        config = \<lparr> promptTemplate = ''You are a receptionist.'', targetLanguage = ''de'',
                   selectedVoice = ''v1'',
                   interruptionPolicy = \<lparr> bargeInEnabled = False, minDurationMs = 300 \<rparr>,
                   responseTimeoutMs = 8000 \<rparr>,
        bus = \<lparr> outbound = [''c3'', ''c4''], written = [''c1'', ''c2''], flushes = 0 \<rparr>,
        events = [] \<rparr>" 400 5000]
  by simp

end
